theory Spec2Isabelle
  imports Complex_Main "HOL-Library.Sublist"
begin

section \<open>Values and exceptions\<close>

text \<open>
  The exceptions of Python that the program can meet.  A computation that may raise
  returns \<open>py_exception + 'a\<close>, \<open>Inl\<close> the exception.
\<close>

datatype py_exception = ValueError | TypeError | KeyError | IndexError | AttributeError

text \<open>
  A Python float: a finite value or one of the special values.  The finite values are
  exact reals: rounding to 53 bits, overflow to infinity and the sign of zero are left
  out of the model, the special values and the rules of arithmetic on them are kept.
\<close>

datatype pyfloat = Fin real | PInf | NInf | NaN

section \<open>String operations of Python used by the program\<close>

text \<open>Text is a list of characters with code points 0 to 255.\<close>

text \<open>\<open>sep in value\<close> for a separator of one character.\<close>

definition str_contains :: "char \<Rightarrow> string \<Rightarrow> bool" where
  "str_contains c s = (c \<in> set s)"

text \<open>\<open>value.split(sep)\<close> for a separator of one character: never an empty list.\<close>

fun str_split :: "char \<Rightarrow> string \<Rightarrow> string list" where
  "str_split sep [] = [[]]"
| "str_split sep (c # cs) =
     (if c = sep then [] # str_split sep cs
      else (case str_split sep cs of
              [] \<Rightarrow> [[c]]
            | w # ws \<Rightarrow> (c # w) # ws))"

text \<open>\<open>value.replace(a, b)\<close> for single characters: every occurrence is replaced.\<close>

definition str_replace :: "char \<Rightarrow> char \<Rightarrow> string \<Rightarrow> string" where
  "str_replace a b s = map (\<lambda>c. if c = a then b else c) s"

text \<open>\<open>xs[i]\<close> for an index that is not negative.\<close>

definition py_index :: "'a list \<Rightarrow> nat \<Rightarrow> py_exception + 'a" where
  "py_index xs i = (if i < length xs then Inr (xs ! i) else Inl IndexError)"

text \<open>\<open>xs[-1]\<close>.\<close>

definition py_last :: "'a list \<Rightarrow> py_exception + 'a" where
  "py_last xs = (if xs = [] then Inl IndexError else Inr (last xs))"

section \<open>The builtin \<open>float\<close> on text\<close>

text \<open>
  \<open>float(s)\<close> of CPython: non-ASCII spaces become a blank and the text is cut at the
  first other non-ASCII character, white space is stripped at both ends, underscores are
  allowed between digits only, and what is left is a signed decimal number with an
  optional exponent, or a spelling of infinity or of not-a-number in any case.
\<close>

definition is_digit :: "char \<Rightarrow> bool" where
  "is_digit c = (48 \<le> (of_char c :: nat) \<and> (of_char c :: nat) \<le> 57)"

definition digit_val :: "char \<Rightarrow> nat" where
  "digit_val c = of_char c - 48"

definition digits_val :: "string \<Rightarrow> nat" where
  "digits_val ds = foldl (\<lambda>a c. 10 * a + digit_val c) 0 ds"

definition is_space :: "char \<Rightarrow> bool" where
  "is_space c = (c \<in> set [CHR 0x09, CHR 0x0A, CHR 0x0B, CHR 0x0C, CHR 0x0D, CHR 0x20])"

fun transform_loop :: "string \<Rightarrow> string" where
  "transform_loop [] = []"
| "transform_loop (c # cs) =
     (if (of_char c :: nat) < 127 then c # transform_loop cs
      else if c = CHR 0x85 \<or> c = CHR 0xA0 then CHR 0x20 # transform_loop cs
      else ''?'')"

definition transform_decimal_and_space :: "string \<Rightarrow> string" where
  "transform_decimal_and_space s =
     (if \<forall>c \<in> set s. (of_char c :: nat) < 128 then s else transform_loop s)"

definition strip_space :: "string \<Rightarrow> string" where
  "strip_space s = rev (dropWhile is_space (rev (dropWhile is_space s)))"

fun underscores_ok :: "char \<Rightarrow> string \<Rightarrow> bool" where
  "underscores_ok prev [] = (prev \<noteq> CHR ''_'')"
| "underscores_ok prev (c # cs) =
     (if c = CHR ''_'' then is_digit prev \<and> underscores_ok c cs
      else (prev = CHR ''_'' \<longrightarrow> is_digit c) \<and> underscores_ok c cs)"

definition take_sign :: "string \<Rightarrow> bool \<times> string" where
  "take_sign s =
     (case s of
        [] \<Rightarrow> (False, [])
      | c # cs \<Rightarrow> if c = CHR ''-'' then (True, cs)
                 else if c = CHR ''+'' then (False, cs)
                 else (False, s))"

definition to_lower :: "char \<Rightarrow> char" where
  "to_lower c =
     (if 65 \<le> (of_char c :: nat) \<and> (of_char c :: nat) \<le> 90
      then char_of ((of_char c :: nat) + 32) else c)"

text \<open>The exponent part: consumed only when it has a digit.\<close>

definition parse_exponent :: "string \<Rightarrow> int \<times> string" where
  "parse_exponent s =
     (case s of
        [] \<Rightarrow> (0, [])
      | c # t \<Rightarrow>
          if c = CHR ''e'' \<or> c = CHR ''E'' then
            (let (eneg, t1) = take_sign t;
                 ed = takeWhile is_digit t1
             in if ed = [] then (0, s)
                else ((if eneg then - int (digits_val ed) else int (digits_val ed)),
                      dropWhile is_digit t1))
          else (0, s))"

definition scale10 :: "real \<Rightarrow> int \<Rightarrow> real" where
  "scale10 m e = (if 0 \<le> e then m * 10 ^ nat e else m / 10 ^ nat (- e))"

text \<open>
  The decimal number at the head of the text with the rest of the text, \<open>None\<close> when
  the mantissa has no digit.
\<close>

definition dg_strtod :: "string \<Rightarrow> (real \<times> string) option" where
  "dg_strtod s =
     (let (neg, s1) = take_sign s;
          ip = takeWhile is_digit s1;
          r1 = dropWhile is_digit s1;
          (fp, r2) = (case r1 of
                        [] \<Rightarrow> ([], r1)
                      | c # t \<Rightarrow> if c = CHR ''.''
                                 then (takeWhile is_digit t, dropWhile is_digit t)
                                 else ([], r1))
      in if ip = [] \<and> fp = [] then None
         else
           (let m = real (digits_val (ip @ fp)) / 10 ^ length fp;
                (e, r3) = parse_exponent r2;
                v = scale10 m e
            in Some ((if neg then - v else v), r3)))"

definition parse_inf_or_nan :: "string \<Rightarrow> (pyfloat \<times> string) option" where
  "parse_inf_or_nan s =
     (let (neg, r) = take_sign s;
          l = map to_lower r
      in if take 3 l = ''inf'' then
           Some ((if neg then NInf else PInf),
                 (if take 5 (drop 3 l) = ''inity'' then drop 8 r else drop 3 r))
         else if take 3 l = ''nan'' then Some (NaN, drop 3 r)
         else None)"

definition ascii_strtod :: "string \<Rightarrow> (pyfloat \<times> string) option" where
  "ascii_strtod s =
     (case dg_strtod s of
        Some (v, r) \<Rightarrow> Some (Fin v, r)
      | None \<Rightarrow> parse_inf_or_nan s)"

text \<open>The whole of the text has to be consumed.\<close>

definition float_from_string_inner :: "string \<Rightarrow> py_exception + pyfloat" where
  "float_from_string_inner s =
     (case ascii_strtod s of
        None \<Rightarrow> Inl ValueError
      | Some (v, r) \<Rightarrow> if r = [] then Inr v else Inl ValueError)"

definition py_float :: "string \<Rightarrow> py_exception + pyfloat" where
  "py_float s =
     (let t = strip_space (transform_decimal_and_space s)
      in if t = [] then Inl ValueError
         else if CHR ''_'' \<in> set t then
           (if underscores_ok (CHR 0x00) t
            then float_from_string_inner (filter (\<lambda>c. c \<noteq> CHR ''_'') t)
            else Inl ValueError)
         else float_from_string_inner t)"

section \<open>The numeric parser\<close>

text \<open>\<open>try: ... except ValueError: return None\<close>: no other exception is caught.\<close>

definition except_ValueError :: "py_exception + 'a \<Rightarrow> py_exception + 'a option" where
  "except_ValueError r =
     (case r of
        Inr x \<Rightarrow> Inr (Some x)
      | Inl e \<Rightarrow> if e = ValueError then Inr None else Inl e)"

text \<open>
  The test of the first branch, \<open>',' in value and len(value.split(',')[1]) >= 2\<close>:
  the index is evaluated only when the text has a comma.
\<close>

definition two_after_comma :: "string \<Rightarrow> py_exception + bool" where
  "two_after_comma v =
     (if str_contains (CHR '','') v then
        (case py_index (str_split (CHR '','') v) 1 of
           Inl e \<Rightarrow> Inl e
         | Inr part \<Rightarrow> Inr (2 \<le> length part))
      else Inr False)"

definition parse_float :: "string \<Rightarrow> py_exception + pyfloat option" where
  "parse_float v =
     except_ValueError
       (case two_after_comma v of
          Inl e \<Rightarrow> Inl e
        | Inr b \<Rightarrow>
            if b then py_float (str_replace (CHR '','') (CHR ''.'') v)
            else if str_contains (CHR '','') v
              then py_float (str_replace (CHR '','') (CHR ''.'') v @ ''00'')
            else py_float v)"

text \<open>
  A field of a row is text, or Python's \<open>None\<close> when the row is shorter than the
  header.  On \<open>None\<close> the test \<open>',' in value\<close> raises a TypeError, which the
  handler does not catch.
\<close>

definition parse_float_field :: "string option \<Rightarrow> py_exception + pyfloat option" where
  "parse_float_field value =
     (case value of
        None \<Rightarrow> Inl TypeError
      | Some v \<Rightarrow> parse_float v)"

section \<open>Arithmetic of floats\<close>

definition inf_of :: "bool \<Rightarrow> pyfloat" where
  "inf_of neg = (if neg then NInf else PInf)"

fun fneg :: "pyfloat \<Rightarrow> pyfloat" where
  "fneg (Fin a) = Fin (- a)"
| "fneg PInf = NInf"
| "fneg NInf = PInf"
| "fneg NaN = NaN"

fun fadd :: "pyfloat \<Rightarrow> pyfloat \<Rightarrow> pyfloat" where
  "fadd (Fin a) (Fin b) = Fin (a + b)"
| "fadd NaN y = NaN"
| "fadd x NaN = NaN"
| "fadd PInf NInf = NaN"
| "fadd NInf PInf = NaN"
| "fadd PInf y = PInf"
| "fadd x PInf = PInf"
| "fadd NInf y = NInf"
| "fadd x NInf = NInf"

definition fsub :: "pyfloat \<Rightarrow> pyfloat \<Rightarrow> pyfloat" where
  "fsub x y = fadd x (fneg y)"

fun fmul :: "pyfloat \<Rightarrow> pyfloat \<Rightarrow> pyfloat" where
  "fmul (Fin a) (Fin b) = Fin (a * b)"
| "fmul NaN y = NaN"
| "fmul x NaN = NaN"
| "fmul (Fin a) y = (if a = 0 then NaN else inf_of ((a < 0) \<noteq> (y = NInf)))"
| "fmul x (Fin b) = (if b = 0 then NaN else inf_of ((x = NInf) \<noteq> (b < 0)))"
| "fmul x y = inf_of ((x = NInf) \<noteq> (y = NInf))"

text \<open>Division of numpy floats: a zero divisor gives a special value, not an exception.\<close>

fun fdiv :: "pyfloat \<Rightarrow> pyfloat \<Rightarrow> pyfloat" where
  "fdiv (Fin a) (Fin b) =
     (if b = 0 then (if a = 0 then NaN else inf_of (a < 0)) else Fin (a / b))"
| "fdiv NaN y = NaN"
| "fdiv x NaN = NaN"
| "fdiv (Fin a) y = Fin 0"
| "fdiv x (Fin b) = inf_of ((x = NInf) \<noteq> (b < 0))"
| "fdiv x y = NaN"

fun fsqrt :: "pyfloat \<Rightarrow> pyfloat" where
  "fsqrt (Fin a) = (if a < 0 then NaN else Fin (sqrt a))"
| "fsqrt PInf = PInf"
| "fsqrt NInf = NaN"
| "fsqrt NaN = NaN"

text \<open>\<open>x <= y\<close>: false as soon as one side is not a number.\<close>

fun fle :: "pyfloat \<Rightarrow> pyfloat \<Rightarrow> bool" where
  "fle (Fin a) (Fin b) = (a \<le> b)"
| "fle NaN y = False"
| "fle x NaN = False"
| "fle NInf y = True"
| "fle x PInf = True"
| "fle x y = False"

section \<open>Statistics of numpy\<close>

definition np_sum :: "pyfloat list \<Rightarrow> pyfloat" where
  "np_sum xs = foldl fadd (Fin 0) xs"

text \<open>\<open>np.mean\<close>: the sum over the number of elements.\<close>

definition np_mean :: "pyfloat list \<Rightarrow> pyfloat" where
  "np_mean xs = fdiv (np_sum xs) (Fin (real (length xs)))"

text \<open>
  \<open>np.std\<close> with its default \<open>ddof = 0\<close>: the square root of the mean of the squared
  deviations from the mean.
\<close>

definition np_std :: "pyfloat list \<Rightarrow> pyfloat" where
  "np_std xs =
     (let arrmean = np_mean xs;
          x = map (\<lambda>a. fsub a arrmean) xs;
          x2 = map (\<lambda>a. fmul a a) x
      in fsqrt (fdiv (np_sum x2) (Fin (real (length xs)))))"


definition z_scores :: "pyfloat list \<Rightarrow> pyfloat list" where
  "z_scores docking_scores =
     map (\<lambda>x. fdiv (fsub x (np_mean docking_scores)) (np_std docking_scores)) docking_scores"

section \<open>Formatting\<close>

text \<open>The decimal digits of a natural number, as \<open>str\<close> renders an integer.\<close>

function str_nat :: "nat \<Rightarrow> string" where
  "str_nat n =
     (if n < 10 then [char_of (48 + n)]
      else str_nat (n div 10) @ [char_of (48 + n mod 10)])"
  by pat_completeness auto
termination
  by (relation "measure id") auto

declare str_nat.simps [simp del]

text \<open>Rounding to the nearest integer, a tie to the even one.\<close>

definition round_half_even :: "real \<Rightarrow> int" where
  "round_half_even x =
     (let f = \<lfloor>x\<rfloor>; d = x - of_int f
      in if d < 1 / 2 then f
         else if 1 / 2 < d then f + 1
         else if even f then f else f + 1)"

text \<open>
  The format \<open>{:.pf}\<close> of a float: the sign, the integer digits, a point and exactly
  \<open>p\<close> fractional digits of the value rounded to \<open>p\<close> decimal places; no point
  when \<open>p\<close> is zero.
\<close>

definition format_fixed :: "nat \<Rightarrow> pyfloat \<Rightarrow> string" where
  "format_fixed p x =
     (case x of
        Fin r \<Rightarrow>
          (let q = nat (round_half_even (\<bar>r\<bar> * 10 ^ p));
               frac = str_nat (q mod 10 ^ p)
           in if p = 0 then (if r < 0 then ''-'' else '''') @ str_nat q
              else (if r < 0 then ''-'' else '''') @ str_nat (q div 10 ^ p) @ ''.''
                @ replicate (p - length frac) (CHR ''0'') @ frac)
      | PInf \<Rightarrow> ''inf''
      | NInf \<Rightarrow> ''-inf''
      | NaN \<Rightarrow> ''nan'')"

text \<open>How an f-string and the csv writer render a value that may be \<open>None\<close>.\<close>

definition py_str :: "string option \<Rightarrow> string" where
  "py_str v = (case v of None \<Rightarrow> ''None'' | Some s \<Rightarrow> s)"

definition csv_field :: "string option \<Rightarrow> string" where
  "csv_field v = (case v of None \<Rightarrow> '''' | Some s \<Rightarrow> s)"

section \<open>Files of comma-separated values\<close>

text \<open>
  A file is the list of records that \<open>csv.reader\<close> yields from it, each record a list
  of fields; the writer produces the records it is given.  Quoting and line ends are
  the business of the csv module and are not modelled.
\<close>

type_synonym csv_file = "string list list"

text \<open>
  A row of \<open>csv.DictReader\<close>: the fields keyed by the header, a later column of the
  same name winning, and \<open>None\<close> for the columns that a short row does not reach.  The
  surplus fields of a long row are stored under a key that is not text and are left out.
\<close>

type_synonym row_dict = "string \<rightharpoonup> string option"

definition make_row :: "string list \<Rightarrow> string list \<Rightarrow> row_dict" where
  "make_row fieldnames row =
     foldl (\<lambda>d key. d(key \<mapsto> None))
       (foldl (\<lambda>d (key, v). d(key \<mapsto> Some v)) Map.empty (zip fieldnames row))
       (drop (length row) fieldnames)"

text \<open>The first record is the header; records without any field are skipped.\<close>

definition dict_reader :: "csv_file \<Rightarrow> row_dict list" where
  "dict_reader file =
     (case file of
        [] \<Rightarrow> []
      | fieldnames # rows \<Rightarrow> map (make_row fieldnames) (filter (\<lambda>row. row \<noteq> []) rows))"

text \<open>\<open>row[key]\<close>.\<close>

definition py_getitem :: "row_dict \<Rightarrow> string \<Rightarrow> py_exception + string option" where
  "py_getitem d key = (case d key of None \<Rightarrow> Inl KeyError | Some v \<Rightarrow> Inr v)"

section \<open>The report\<close>

definition molecule_name_column :: string where
  "molecule_name_column = ''Title''"

definition docking_score_column :: string where
  "docking_score_column = ''docking score''"

definition z_score_threshold_lower :: pyfloat where
  "z_score_threshold_lower = Fin (- 1.960)"

text \<open>
  The comprehension that reads the input: for each row the name, then the score text,
  then \<open>parse_float\<close>; the first exception ends it.
\<close>

fun read_rows :: "row_dict list \<Rightarrow> py_exception + (string option \<times> pyfloat option) list" where
  "read_rows [] = Inr []"
| "read_rows (row # rows) =
     (case py_getitem row molecule_name_column of
        Inl e \<Rightarrow> Inl e
      | Inr molecule \<Rightarrow>
          (case py_getitem row docking_score_column of
             Inl e \<Rightarrow> Inl e
           | Inr text \<Rightarrow>
               (case parse_float_field text of
                  Inl e \<Rightarrow> Inl e
                | Inr v \<Rightarrow>
                    (case read_rows rows of
                       Inl e \<Rightarrow> Inl e
                     | Inr rest \<Rightarrow> Inr ((molecule, v) # rest)))))"

text \<open>\<open>[(molecule, value) for molecule, value in data if value is not None]\<close>.\<close>

fun filter_none :: "('a \<times> 'b option) list \<Rightarrow> ('a \<times> 'b) list" where
  "filter_none [] = []"
| "filter_none ((molecule, None) # rest) = filter_none rest"
| "filter_none ((molecule, Some v) # rest) = (molecule, v) # filter_none rest"

text \<open>The rows at or below the threshold, the z-score formatted to six places.\<close>

definition selected_data ::
  "(string option \<times> pyfloat) list \<Rightarrow> pyfloat list \<Rightarrow> (string option \<times> pyfloat \<times> string) list" where
  "selected_data data zs =
     map (\<lambda>(item, z). (fst item, snd item, format_fixed 6 z))
       (filter (\<lambda>(item, z). fle z z_score_threshold_lower) (zip data zs))"

text \<open>\<open>data = [(item[0], item[1], z) for item, z in zip(data, z_scores)]\<close>.\<close>

definition scored_data ::
  "(string option \<times> pyfloat) list \<Rightarrow> pyfloat list \<Rightarrow> (string option \<times> pyfloat \<times> pyfloat) list" where
  "scored_data data zs = map (\<lambda>(item, z). (fst item, snd item, z)) (zip data zs)"

text \<open>
  The written file: the header and one record for each selected row.  The csv writer
  renders the score with \<open>str\<close>, which is a parameter \<open>str_float\<close> of the model: the
  shortest decimal text that reads back as the same float.
\<close>

definition csv_header :: "string list" where
  "csv_header = [molecule_name_column, docking_score_column, ''Z Score'']"

definition write_csv ::
  "(pyfloat \<Rightarrow> string) \<Rightarrow> (string option \<times> pyfloat \<times> string) list \<Rightarrow> csv_file" where
  "write_csv str_float selected =
     csv_header # map (\<lambda>(m, x, z). [csv_field m, str_float x, z]) selected"

text \<open>
  The document: its title, the line of the count, the header cells and the rows.  The
  library escapes the text of a cell with the methods of \<open>str\<close>, so a cell whose text
  is \<open>None\<close> (the name of a row too short to have one) raises an AttributeError while
  the table is built, before the document is saved.
\<close>

record pdf_document =
  pdf_title :: string
  pdf_count_line :: string
  pdf_table_header :: "string list"
  pdf_table_rows :: "(string \<times> string \<times> string) list"

definition pdf_cell :: "string option \<Rightarrow> py_exception + string" where
  "pdf_cell txt = (case txt of None \<Rightarrow> Inl AttributeError | Some s \<Rightarrow> Inr s)"

fun pdf_rows ::
  "(pyfloat \<Rightarrow> string) \<Rightarrow> (string option \<times> pyfloat \<times> string) list
     \<Rightarrow> py_exception + (string \<times> string \<times> string) list" where
  "pdf_rows str_float [] = Inr []"
| "pdf_rows str_float ((m, x, z) # rest) =
     (case pdf_cell m of
        Inl e \<Rightarrow> Inl e
      | Inr name \<Rightarrow>
          (case pdf_rows str_float rest of
             Inl e \<Rightarrow> Inl e
           | Inr rows \<Rightarrow> Inr ((name, str_float x, z) # rows)))"

definition make_pdf ::
  "(pyfloat \<Rightarrow> string) \<Rightarrow> (string option \<times> pyfloat \<times> string) list
     \<Rightarrow> py_exception + pdf_document" where
  "make_pdf str_float selected =
     (case pdf_rows str_float selected of
        Inl e \<Rightarrow> Inl e
      | Inr rows \<Rightarrow>
          Inr \<lparr> pdf_title = ''Compounds with Z-Score <= -1.960'',
                pdf_count_line = ''Total Number of Selected Compounds: '' @ str_nat (length selected),
                pdf_table_header = [''Compound ID'', ''Docking Score (kcal/mol)'',
                                    ''Calculated Z-Score''],
                pdf_table_rows = rows \<rparr>)"

text \<open>
  \<open>print_last_molecule_docking\<close>: the rows of the file as pairs of name and score text,
  the last of them, the line printed, and the score text as a float.  The result is the
  lines printed with the value returned or the exception raised.
\<close>

fun read_pairs :: "row_dict list \<Rightarrow> py_exception + (string option \<times> string option) list" where
  "read_pairs [] = Inr []"
| "read_pairs (row # rows) =
     (case py_getitem row ''Title'' of
        Inl e \<Rightarrow> Inl e
      | Inr t \<Rightarrow>
          (case py_getitem row ''docking score'' of
             Inl e \<Rightarrow> Inl e
           | Inr s \<Rightarrow>
               (case read_pairs rows of
                  Inl e \<Rightarrow> Inl e
                | Inr rest \<Rightarrow> Inr ((t, s) # rest))))"

definition print_last_molecule_docking :: "csv_file \<Rightarrow> string list \<times> (py_exception + pyfloat)" where
  "print_last_molecule_docking file =
     (case read_pairs (dict_reader file) of
        Inl e \<Rightarrow> ([], Inl e)
      | Inr data \<Rightarrow>
          (case py_last data of
             Inl e \<Rightarrow> ([], Inl e)
           | Inr (molecule_name, docking_score) \<Rightarrow>
               ([''The docking score of the last molecule ('' @ py_str molecule_name
                   @ '') is: '' @ py_str docking_score],
                (case docking_score of
                   None \<Rightarrow> Inl TypeError
                 | Some s \<Rightarrow> py_float s))))"

text \<open>
  What a run leaves behind: the filtered file, the document, the plot of the z-scores
  (its two vertical lines), the plot of the docking scores (the position of its marker and
  the label beside it) and the lines printed.
\<close>

record outputs =
  updated_file :: "csv_file option"
  output_pdf :: "pdf_document option"
  output_image :: "pyfloat list option"
  docking_output_image :: "(pyfloat \<times> string) option"
  stdout :: "string list"

definition no_outputs :: outputs where
  "no_outputs =
     \<lparr> updated_file = None, output_pdf = None, output_image = None,
       docking_output_image = None, stdout = [] \<rparr>"

text \<open>
  \<open>main\<close> on the records of the input file: the outputs, and the exception that ended
  the run if one did.  The filtered file is written before the document is built.  The
  minimum of the docking scores, taken for the second plot, raises a ValueError on an
  empty list.
\<close>

definition main :: "(pyfloat \<Rightarrow> string) \<Rightarrow> csv_file \<Rightarrow> outputs \<times> py_exception option" where
  "main str_float file =
     (case read_rows (dict_reader file) of
        Inl e \<Rightarrow> (no_outputs, Some e)
      | Inr rows \<Rightarrow>
          (let data = filter_none rows;
               docking_scores = map snd data;
               zs = z_scores docking_scores;
               selected = selected_data data zs;
               data3 = scored_data data zs;
               written = write_csv str_float selected
           in case make_pdf str_float selected of
                Inl e \<Rightarrow> (no_outputs \<lparr> updated_file := Some written \<rparr>, Some e)
              | Inr pdf \<Rightarrow>
                  (let out = \<lparr> updated_file = Some written, output_pdf = Some pdf,
                               output_image = Some [z_score_threshold_lower, Fin 0],
                               docking_output_image = None, stdout = [] \<rparr>;
                       docking_values = map (\<lambda>(m, x, z). x) data3
                   in if docking_values = [] then (out, Some ValueError)
                      else
                        (case print_last_molecule_docking written of
                           (printed, Inl e) \<Rightarrow> (out \<lparr> stdout := printed \<rparr>, Some e)
                         | (printed, Inr last_docking_value) \<Rightarrow>
                             (out \<lparr> stdout := printed,
                                    docking_output_image :=
                                      Some (last_docking_value,
                                            ''Fitness= '' @ format_fixed 2 last_docking_value) \<rparr>,
                              None)))))"

section \<open>Notions of the specification\<close>

text \<open>
  A decimal text: an optional minus sign, the digits of the integer part, a separator
  and the digits of the fractional part; and the number that it denotes.
\<close>

definition decimal_text :: "bool \<Rightarrow> string \<Rightarrow> char \<Rightarrow> string \<Rightarrow> string" where
  "decimal_text neg ip sep fp = (if neg then ''-'' else '''') @ ip @ [sep] @ fp"

definition decimal_value :: "bool \<Rightarrow> string \<Rightarrow> string \<Rightarrow> real" where
  "decimal_value neg ip fp =
     (if neg then - (real (digits_val (ip @ fp)) / 10 ^ length fp)
      else real (digits_val (ip @ fp)) / 10 ^ length fp)"

definition digits :: "string \<Rightarrow> bool" where
  "digits ds = list_all is_digit ds"

text \<open>
  Text that is not a number: \<open>float\<close> rejects it as it is written and also with its
  commas read as decimal points.
\<close>

definition non_numeric :: "string \<Rightarrow> bool" where
  "non_numeric v =
     (py_float v = Inl ValueError
      \<and> py_float (str_replace (CHR '','') (CHR ''.'') v) = Inl ValueError)"




section \<open>The parser never raises\<close>

lemma str_split_nonempty: "str_split sep s \<noteq> []"
  by (induction s) (auto split: list.splits)

lemma str_split_length: "sep \<in> set s \<Longrightarrow> 1 < length (str_split sep s)"
proof (induction s)
  case Nil
  then show ?case by simp
next
  case (Cons c cs)
  show ?case
  proof (cases "c = sep")
    case True
    then show ?thesis using str_split_nonempty [of sep cs] by (cases "str_split sep cs") auto
  next
    case False
    with Cons have "1 < length (str_split sep cs)" by simp
    with False show ?thesis by (cases "str_split sep cs") auto
  qed
qed

lemma two_after_comma_total: "\<exists>b. two_after_comma v = Inr b"
  using str_split_length [of "CHR '',''" v]
  by (auto simp: two_after_comma_def str_contains_def py_index_def)

lemma float_from_string_inner_error: "float_from_string_inner s = Inl e \<Longrightarrow> e = ValueError"
  by (auto simp: float_from_string_inner_def split: option.splits if_splits)

lemma py_float_error: "py_float s = Inl e \<Longrightarrow> e = ValueError"
  by (auto simp: py_float_def Let_def dest: float_from_string_inner_error split: if_splits)

lemma except_ValueError_py_float: "\<exists>r. except_ValueError (py_float s) = Inr r"
  by (cases "py_float s") (auto simp: except_ValueError_def dest: py_float_error)

text \<open>
  Claim C3.  On every text \<open>parse_float\<close> returns: either a float or \<open>None\<close>, and no
  exception leaves it.  The index into the parts of the split text is inside the list
  whenever the text has a comma, and \<open>float\<close> raises nothing but a ValueError, which the
  handler catches.
\<close>

theorem parse_float_total: "\<exists>r. parse_float v = Inr r"
proof -
  obtain b where b: "two_after_comma v = Inr b"
    using two_after_comma_total by blast
  show ?thesis
    unfolding parse_float_def b
    by (simp add: except_ValueError_py_float)
qed

theorem parse_float_total_witness: "\<exists>r. parse_float ''12,x'' = Inr r"
  by (rule parse_float_total)

section \<open>The parser on decimal text\<close>

lemma str_split_no_sep: "sep \<notin> set s \<Longrightarrow> str_split sep s = [s]"
  by (induction s) auto

lemma str_split_first: "sep \<notin> set pre \<Longrightarrow> str_split sep (pre @ sep # suf) = pre # str_split sep suf"
  by (induction pre) auto

lemma str_split_hd: "hd (str_split sep s) = takeWhile (\<lambda>c. c \<noteq> sep) s"
  by (induction s) (auto simp: str_split_nonempty split: list.splits)

lemma two_after_comma_first:
  assumes "CHR '','' \<notin> set pre"
  shows "two_after_comma (pre @ CHR '','' # suf)
           = Inr (2 \<le> length (takeWhile (\<lambda>c. c \<noteq> CHR '','') suf))"
proof -
  have "str_split (CHR '','') (pre @ CHR '','' # suf) ! 1 = hd (str_split (CHR '','') suf)"
    using assms str_split_nonempty [of "CHR '',''" suf]
    by (simp add: str_split_first hd_conv_nth)
  moreover have "1 < length (str_split (CHR '','') (pre @ CHR '','' # suf))"
    by (rule str_split_length) simp
  ultimately show ?thesis
    by (simp add: two_after_comma_def str_contains_def py_index_def str_split_hd)
qed

lemma two_after_comma_none: "CHR '','' \<notin> set v \<Longrightarrow> two_after_comma v = Inr False"
  by (simp add: two_after_comma_def str_contains_def)

text \<open>Characters of a decimal text.\<close>

lemma is_digit_facts:
  assumes "is_digit c"
  shows "c \<noteq> CHR '',''" "c \<noteq> CHR ''.''" "c \<noteq> CHR ''-''" "c \<noteq> CHR ''+''" "c \<noteq> CHR ''_''"
    "\<not> is_space c" "(of_char c :: nat) < 128"
  using assms by (auto simp: is_digit_def is_space_def)

lemma not_digit_chars [simp]:
  "\<not> is_digit (CHR ''.'')" "\<not> is_digit (CHR '','')" "\<not> is_digit (CHR ''-'')"
  by (simp_all add: is_digit_def)

lemma digits_set: "digits ds \<longleftrightarrow> (\<forall>c \<in> set ds. is_digit c)"
  by (simp add: digits_def list_all_iff)

lemma takeWhile_digits: "digits ds \<Longrightarrow> \<not> is_digit c \<Longrightarrow> takeWhile is_digit (ds @ c # r) = ds"
  by (induction ds) (auto simp: digits_def)

lemma dropWhile_digits: "digits ds \<Longrightarrow> \<not> is_digit c \<Longrightarrow> dropWhile is_digit (ds @ c # r) = c # r"
  by (induction ds) (auto simp: digits_def)

lemma takeWhile_digits_all: "digits ds \<Longrightarrow> takeWhile is_digit ds = ds"
  by (induction ds) (auto simp: digits_def)

lemma dropWhile_digits_all: "digits ds \<Longrightarrow> dropWhile is_digit ds = []"
  by (induction ds) (auto simp: digits_def)

lemma take_sign_minus: "take_sign (CHR ''-'' # s) = (True, s)"
  by (simp add: take_sign_def)

lemma take_sign_digit: "s \<noteq> [] \<Longrightarrow> is_digit (hd s) \<Longrightarrow> take_sign s = (False, s)"
  by (cases s) (auto simp: take_sign_def dest: is_digit_facts)

lemma take_sign_point: "take_sign (CHR ''.'' # s) = (False, CHR ''.'' # s)"
  by (simp add: take_sign_def)

lemma dg_strtod_decimal:
  assumes "ip \<noteq> [] \<or> fp \<noteq> []" "digits ip" "digits fp"
  shows "dg_strtod (decimal_text neg ip (CHR ''.'') fp) = Some (decimal_value neg ip fp, [])"
proof -
  have "take_sign (ip @ CHR ''.'' # fp) = (False, ip @ CHR ''.'' # fp)"
  proof (cases ip)
    case Nil
    then show ?thesis by (simp add: take_sign_point)
  next
    case (Cons c cs)
    then have "is_digit (hd (ip @ CHR ''.'' # fp))" using assms(2) by (simp add: digits_def)
    then show ?thesis by (intro take_sign_digit) simp_all
  qed
  then have s: "take_sign (decimal_text neg ip (CHR ''.'') fp) = (neg, ip @ CHR ''.'' # fp)"
    by (simp add: decimal_text_def take_sign_minus)
  show ?thesis
    using assms
    by (simp add: dg_strtod_def s takeWhile_digits dropWhile_digits takeWhile_digits_all
        dropWhile_digits_all parse_exponent_def scale10_def decimal_value_def)
qed

lemma strip_space_id:
  assumes "s \<noteq> []" "\<not> is_space (hd s)" "\<not> is_space (last s)"
  shows "strip_space s = s"
proof -
  have 1: "dropWhile is_space s = s" using assms(1,2) by (cases s) auto
  have "rev s \<noteq> []" "\<not> is_space (hd (rev s))" using assms(1,3) by (simp_all add: hd_rev)
  then have 2: "dropWhile is_space (rev s) = rev s" by (cases "rev s") auto
  show ?thesis by (simp add: strip_space_def 1 2)
qed

lemma decimal_text_chars:
  assumes "digits ip" "digits fp" "c \<in> set (decimal_text neg ip (CHR ''.'') fp)"
  shows "is_digit c \<or> c = CHR ''.'' \<or> c = CHR ''-''"
  using assms by (auto simp: decimal_text_def digits_set split: if_splits)

lemma py_float_decimal:
  assumes "ip \<noteq> [] \<or> fp \<noteq> []" "digits ip" "digits fp"
  shows "py_float (decimal_text neg ip (CHR ''.'') fp) = Inr (Fin (decimal_value neg ip fp))"
proof -
  let ?t = "decimal_text neg ip (CHR ''.'') fp"
  have chars: "\<And>c. c \<in> set ?t \<Longrightarrow> is_digit c \<or> c = CHR ''.'' \<or> c = CHR ''-''"
    using decimal_text_chars [OF assms(2,3)] by blast
  have ascii: "\<forall>c \<in> set ?t. (of_char c :: nat) < 128"
    using chars is_digit_facts(7) by fastforce
  have ne: "?t \<noteq> []" by (simp add: decimal_text_def)
  have hd: "\<not> is_space (hd ?t)"
    using chars [of "hd ?t"] ne is_digit_facts(6) by (auto simp: is_space_def)
  have last: "\<not> is_space (last ?t)"
    using chars [of "last ?t"] ne is_digit_facts(6) by (auto simp: is_space_def)
  have us: "CHR ''_'' \<notin> set ?t"
    using chars [of "CHR ''_''"] is_digit_facts(5) by auto
  have "strip_space (transform_decimal_and_space ?t) = ?t"
    using ascii by (simp add: transform_decimal_and_space_def strip_space_id [OF ne hd last])
  then show ?thesis
    using ne us assms
    by (simp add: py_float_def float_from_string_inner_def ascii_strtod_def dg_strtod_decimal)
qed

lemma str_replace_decimal:
  assumes "digits ip" "digits fp"
  shows "str_replace (CHR '','') (CHR ''.'') (decimal_text neg ip (CHR '','') fp)
           = decimal_text neg ip (CHR ''.'') fp"
proof -
  have "\<And>ds. digits ds \<Longrightarrow> map (\<lambda>c. if c = CHR '','' then CHR ''.'' else c) ds = ds"
    by (rule map_idI) (auto simp: digits_set dest: is_digit_facts(1))
  then show ?thesis using assms by (simp add: str_replace_def decimal_text_def)
qed

lemma decimal_text_append: "decimal_text neg ip sep fp @ s = decimal_text neg ip sep (fp @ s)"
  by (simp add: decimal_text_def)

lemma two_after_comma_decimal:
  assumes "digits ip" "digits fp"
  shows "two_after_comma (decimal_text neg ip (CHR '','') fp) = Inr (2 \<le> length fp)"
proof -
  have 1: "CHR '','' \<notin> set ((if neg then ''-'' else '''') @ ip)"
    using assms(1) by (auto simp: digits_set dest: is_digit_facts(1))
  have 2: "takeWhile (\<lambda>c. c \<noteq> CHR '','') fp = fp"
    using assms(2) by (auto simp: takeWhile_eq_all_conv digits_set dest: is_digit_facts(1))
  show ?thesis
    using two_after_comma_first [OF 1, of fp] by (simp add: decimal_text_def 2)
qed

lemma digits_val_append: "digits_val (xs @ ys) = foldl (\<lambda>a c. 10 * a + digit_val c) (digits_val xs) ys"
  by (simp add: digits_val_def)

lemma decimal_value_zeros: "decimal_value neg ip (fp @ ''00'') = decimal_value neg ip fp"
proof -
  have "digits_val ((ip @ fp) @ ''00'') = 100 * digits_val (ip @ fp)"
    unfolding digits_val_append [of "ip @ fp"] by (simp add: digit_val_def)
  then show ?thesis by (simp add: decimal_value_def)
qed

section \<open>Text with more than one decimal point\<close>

lemma take_sign_cases:
  assumes "take_sign s = (neg, s1)"
  shows "s = s1 \<or> s = CHR ''-'' # s1 \<or> s = CHR ''+'' # s1"
  using assms by (auto simp: take_sign_def split: list.splits if_splits)

lemma digit_not_point: "is_digit c \<Longrightarrow> c \<noteq> CHR ''.'' \<and> c \<noteq> CHR ''?''"
  by (auto simp: is_digit_def)

lemma takeWhile_digit_clean:
  "CHR ''.'' \<notin> set (takeWhile is_digit s)" "CHR ''?'' \<notin> set (takeWhile is_digit s)"
  using digit_not_point by (auto dest!: set_takeWhileD)

lemma all_digits_clean:
  assumes "dropWhile is_digit s = []"
  shows "CHR ''.'' \<notin> set s \<and> CHR ''?'' \<notin> set s"
  using assms digit_not_point by (auto simp: dropWhile_eq_Nil_conv)

lemma parse_exponent_clean:
  assumes "parse_exponent r = (e, [])"
  shows "CHR ''.'' \<notin> set r \<and> CHR ''?'' \<notin> set r"
proof (cases r)
  case Nil
  then show ?thesis by simp
next
  case (Cons c t)
  obtain eneg t1 where ts: "take_sign t = (eneg, t1)" by (cases "take_sign t")
  from assms Cons ts have c: "c = CHR ''e'' \<or> c = CHR ''E''"
    and d: "dropWhile is_digit t1 = []"
    by (auto simp: parse_exponent_def Let_def split: if_splits)
  from take_sign_cases [OF ts] all_digits_clean [OF d] c Cons show ?thesis by auto
qed

lemma set_takeWhile_dropWhile:
  "x \<in> set s \<Longrightarrow> x \<in> set (takeWhile P s) \<or> x \<in> set (dropWhile P s)"
  by (metis Un_iff set_append takeWhile_dropWhile_id)

lemma count_list_append: "count_list (xs @ ys) c = count_list xs c + count_list ys c"
  by (induction xs) auto

lemma count_list_zero: "c \<notin> set xs \<Longrightarrow> count_list xs c = 0"
  by (induction xs) auto

lemma dg_strtod_clean:
  assumes "dg_strtod s = Some (v, [])"
  shows "count_list s (CHR ''.'') \<le> 1 \<and> CHR ''?'' \<notin> set s"
proof -
  obtain neg s1 where ts: "take_sign s = (neg, s1)" by (cases "take_sign s")
  let ?ip = "takeWhile is_digit s1" and ?r1 = "dropWhile is_digit s1"
  have "count_list ?r1 (CHR ''.'') \<le> 1 \<and> CHR ''?'' \<notin> set ?r1"
  proof (cases ?r1)
    case Nil
    show ?thesis unfolding Nil by simp
  next
    case (Cons c t)
    show ?thesis
    proof (cases "c = CHR ''.''")
      case True
      obtain e r3 where pe: "parse_exponent (dropWhile is_digit t) = (e, r3)"
        by (cases "parse_exponent (dropWhile is_digit t)")
      from assms ts Cons True pe have "r3 = []"
        by (auto simp: dg_strtod_def Let_def split: if_splits)
      with pe have cl: "CHR ''.'' \<notin> set (dropWhile is_digit t) \<and> CHR ''?'' \<notin> set (dropWhile is_digit t)"
        using parse_exponent_clean by blast
      have "CHR ''.'' \<notin> set t \<and> CHR ''?'' \<notin> set t"
        using cl takeWhile_digit_clean [of t] set_takeWhile_dropWhile [of _ t is_digit] by blast
      then show ?thesis using Cons True by (simp add: count_list_zero)
    next
      case False
      obtain e r3 where pe: "parse_exponent ?r1 = (e, r3)"
        by (cases "parse_exponent ?r1")
      from assms ts Cons False pe have "r3 = []"
        by (auto simp: dg_strtod_def Let_def split: if_splits)
      with pe have "CHR ''.'' \<notin> set ?r1 \<and> CHR ''?'' \<notin> set ?r1"
        using parse_exponent_clean by blast
      then show ?thesis by (simp add: count_list_zero)
    qed
  qed
  moreover have "count_list ?ip (CHR ''.'') = 0" "CHR ''?'' \<notin> set ?ip"
    using takeWhile_digit_clean [of s1] by (simp_all add: count_list_zero)
  ultimately have "count_list (?ip @ ?r1) (CHR ''.'') \<le> 1 \<and> CHR ''?'' \<notin> set (?ip @ ?r1)"
    by (simp only: count_list_append set_append) simp
  then have "count_list s1 (CHR ''.'') \<le> 1 \<and> CHR ''?'' \<notin> set s1"
    unfolding takeWhile_dropWhile_id .
  then show ?thesis using take_sign_cases [OF ts] by auto
qed

lemma to_lower_code:
  "(of_char (to_lower c) :: nat) = (if 65 \<le> (of_char c :: nat) \<and> (of_char c :: nat) \<le> 90
                                    then of_char c + 32 else of_char c)"
  by (simp add: to_lower_def)

lemma to_lower_point:
  assumes "to_lower c = CHR ''.'' \<or> to_lower c = CHR ''?''"
  shows "c = to_lower c"
proof -
  have "(of_char (to_lower c) :: nat) = 46 \<or> (of_char (to_lower c) :: nat) = 63"
    using assms by auto
  then have "\<not> (65 \<le> (of_char c :: nat) \<and> (of_char c :: nat) \<le> 90)"
    unfolding to_lower_code by (auto split: if_splits)
  then show ?thesis by (auto simp: to_lower_def)
qed

lemma lower_clean:
  assumes "CHR ''.'' \<notin> set (map to_lower r)" "CHR ''?'' \<notin> set (map to_lower r)"
  shows "CHR ''.'' \<notin> set r \<and> CHR ''?'' \<notin> set r"
proof -
  have "to_lower (CHR ''.'') = CHR ''.''" "to_lower (CHR ''?'') = CHR ''?''"
    by (simp_all add: to_lower_def)
  then show ?thesis using assms by (metis image_eqI set_map)
qed

lemma parse_inf_or_nan_clean:
  assumes "parse_inf_or_nan s = Some (v, [])"
  shows "CHR ''.'' \<notin> set s \<and> CHR ''?'' \<notin> set s"
proof -
  obtain neg r where ts: "take_sign s = (neg, r)" by (cases "take_sign s")
  let ?l = "map to_lower r"
  have "?l = ''inf'' \<or> ?l = ''infinity'' \<or> ?l = ''nan''"
  proof -
    consider (a) "take 3 ?l = ''inf''" "take 5 (drop 3 ?l) = ''inity''" "drop 8 r = []"
      | (b) "take 3 ?l = ''inf''" "drop 3 r = []"
      | (c) "take 3 ?l = ''nan''" "drop 3 r = []"
      using assms ts by (auto simp: parse_inf_or_nan_def Let_def split: if_splits)
    then show ?thesis
    proof cases
      case a
      have "?l = take 3 ?l @ take 5 (drop 3 ?l) @ drop 5 (drop 3 ?l)"
        by (simp only: append_take_drop_id)
      also have "drop 5 (drop 3 ?l) = map to_lower (drop 8 r)" by (simp add: drop_map)
      finally show ?thesis using a by simp
    next
      case b
      have "?l = take 3 ?l @ map to_lower (drop 3 r)"
        by (simp only: drop_map [symmetric] append_take_drop_id)
      then show ?thesis using b by simp
    next
      case c
      have "?l = take 3 ?l @ map to_lower (drop 3 r)"
        by (simp only: drop_map [symmetric] append_take_drop_id)
      then show ?thesis using c by simp
    qed
  qed
  then have "CHR ''.'' \<notin> set ?l" "CHR ''?'' \<notin> set ?l" by auto
  then have "CHR ''.'' \<notin> set r \<and> CHR ''?'' \<notin> set r" by (rule lower_clean)
  then show ?thesis using take_sign_cases [OF ts] by auto
qed

lemma float_from_string_inner_clean:
  assumes "float_from_string_inner t = Inr v"
  shows "count_list t (CHR ''.'') \<le> 1 \<and> CHR ''?'' \<notin> set t"
proof (cases "dg_strtod t")
  case None
  then have "parse_inf_or_nan t = Some (v, [])"
    using assms by (auto simp: float_from_string_inner_def ascii_strtod_def split: option.splits if_splits)
  then show ?thesis using parse_inf_or_nan_clean by (simp add: count_list_zero)
next
  case (Some p)
  then obtain x where "dg_strtod t = Some (x, [])"
    using assms
    by (cases p) (auto simp: float_from_string_inner_def ascii_strtod_def split: option.splits if_splits)
  then show ?thesis by (rule dg_strtod_clean)
qed

lemma count_list_filter: "P c \<Longrightarrow> count_list (filter P s) c = count_list s c"
  by (induction s) auto

lemma count_list_dropWhile: "\<not> P c \<Longrightarrow> count_list (dropWhile P s) c = count_list s c"
  by (induction s) auto

lemma count_list_rev: "count_list (rev s) c = count_list s c"
  by (induction s) (auto simp: count_list_append)

lemma set_dropWhile_keep: "c \<in> set s \<Longrightarrow> \<not> P c \<Longrightarrow> c \<in> set (dropWhile P s)"
  by (induction s) auto

lemma strip_space_clean:
  "count_list (strip_space s) (CHR ''.'') = count_list s (CHR ''.'')"
  "CHR ''?'' \<in> set s \<Longrightarrow> CHR ''?'' \<in> set (strip_space s)"
proof -
  have p: "\<not> is_space (CHR ''.'')" "\<not> is_space (CHR ''?'')" by (simp_all add: is_space_def)
  show "count_list (strip_space s) (CHR ''.'') = count_list s (CHR ''.'')"
    by (simp add: strip_space_def count_list_rev count_list_dropWhile p)
  assume "CHR ''?'' \<in> set s"
  then show "CHR ''?'' \<in> set (strip_space s)"
    by (simp add: strip_space_def set_dropWhile_keep p)
qed

lemma transform_loop_clean:
  "CHR ''?'' \<in> set (transform_loop s)
   \<or> count_list (transform_loop s) (CHR ''.'') = count_list s (CHR ''.'')"
  by (induction s) auto

lemma transform_clean:
  "CHR ''?'' \<in> set (transform_decimal_and_space s)
   \<or> count_list (transform_decimal_and_space s) (CHR ''.'') = count_list s (CHR ''.'')"
  using transform_loop_clean [of s] by (simp add: transform_decimal_and_space_def)

lemma py_float_one_point:
  assumes "py_float s = Inr v"
  shows "count_list s (CHR ''.'') \<le> 1"
proof -
  let ?t = "strip_space (transform_decimal_and_space s)"
  let ?u = "filter (\<lambda>c. c \<noteq> CHR ''_'') ?t"
  have "float_from_string_inner ?t = Inr v \<or> float_from_string_inner ?u = Inr v"
    using assms by (auto simp: py_float_def Let_def split: if_splits)
  then have "count_list ?t (CHR ''.'') \<le> 1 \<and> CHR ''?'' \<notin> set ?t"
  proof
    assume "float_from_string_inner ?t = Inr v"
    then show ?thesis by (rule float_from_string_inner_clean)
  next
    assume "float_from_string_inner ?u = Inr v"
    then have "count_list ?u (CHR ''.'') \<le> 1 \<and> CHR ''?'' \<notin> set ?u"
      by (rule float_from_string_inner_clean)
    then show ?thesis by (simp add: count_list_filter)
  qed
  then have "count_list (transform_decimal_and_space s) (CHR ''.'') \<le> 1"
    and "CHR ''?'' \<notin> set (transform_decimal_and_space s)"
    using strip_space_clean [of "transform_decimal_and_space s"] by auto
  then show ?thesis using transform_clean [of s] by auto
qed

lemma two_points_rejected:
  assumes "2 \<le> count_list s (CHR ''.'')"
  shows "py_float s = Inl ValueError"
proof (cases "py_float s")
  case (Inl e)
  then show ?thesis using py_float_error by blast
next
  case (Inr v)
  then show ?thesis using py_float_one_point [of s v] assms by simp
qed

lemma count_list_replace: "count_list s a \<le> count_list (str_replace a b s) b"
  by (induction s) (auto simp: str_replace_def)

lemma count_list_member: "a \<in> set s \<Longrightarrow> 1 \<le> count_list s a"
  by (induction s) auto

lemma two_commas_rejected:
  assumes "2 \<le> count_list v (CHR '','')"
  shows "py_float (str_replace (CHR '','') (CHR ''.'') v @ t) = Inl ValueError"
proof -
  have "2 \<le> count_list (str_replace (CHR '','') (CHR ''.'') v) (CHR ''.'')"
    using assms count_list_replace [of v "CHR '',''" "CHR ''.''"] by linarith
  then have "2 \<le> count_list (str_replace (CHR '','') (CHR ''.'') v @ t) (CHR ''.'')"
    by (simp add: count_list_append)
  then show ?thesis by (rule two_points_rejected)
qed

lemma parse_float_two_commas:
  assumes "2 \<le> count_list v (CHR '','')"
  shows "parse_float v = Inr None"
proof -
  obtain b where "two_after_comma v = Inr b"
    using two_after_comma_total by blast
  moreover have "CHR '','' \<in> set v"
    using assms count_list_zero [of "CHR '',''" v] by fastforce
  ultimately show ?thesis
    using two_commas_rejected [OF assms, of "[]"] two_commas_rejected [OF assms, of "''00''"]
    by (simp add: parse_float_def str_contains_def except_ValueError_def)
qed

text \<open>
  The rule chosen by the number of characters after a comma of the text, whichever comma
  it is: with two commas both rules give \<open>None\<close>.
\<close>

lemma parse_float_by_suffix:
  "parse_float (pre @ CHR '','' # suf)
     = except_ValueError
         (py_float (str_replace (CHR '','') (CHR ''.'') (pre @ CHR '','' # suf)
                    @ (if length suf < 2 then ''00'' else '''')))"
proof (cases "CHR '','' \<in> set pre \<or> CHR '','' \<in> set suf")
  case True
  then have c: "2 \<le> count_list (pre @ CHR '','' # suf) (CHR '','')"
    using count_list_member [of "CHR '',''" pre] count_list_member [of "CHR '',''" suf]
    by (auto simp: count_list_append)
  show ?thesis
    using two_commas_rejected [OF c]
    by (simp add: parse_float_two_commas [OF c] except_ValueError_def)
next
  case False
  then have tw: "takeWhile (\<lambda>c. c \<noteq> CHR '','') suf = suf"
    by (auto simp: takeWhile_eq_all_conv)
  have "two_after_comma (pre @ CHR '','' # suf)
          = Inr (2 \<le> length (takeWhile (\<lambda>c. c \<noteq> CHR '','') suf))"
    using False by (intro two_after_comma_first) simp
  then have "two_after_comma (pre @ CHR '','' # suf) = Inr (2 \<le> length suf)"
    by (simp only: tw)
  then show ?thesis by (simp add: parse_float_def str_contains_def not_le)
qed

section \<open>The rules of the parser\<close>

lemmas float_defs = py_float_def transform_decimal_and_space_def strip_space_def is_space_def
  float_from_string_inner_def ascii_strtod_def dg_strtod_def take_sign_def is_digit_def
  parse_exponent_def scale10_def digits_val_def digit_val_def parse_inf_or_nan_def to_lower_def

lemmas parse_defs = parse_float_def two_after_comma_def str_contains_def py_index_def
  str_replace_def except_ValueError_def

lemma parse_float_decimal:
  assumes "ip \<noteq> []" "digits ip" "digits fp"
  shows "parse_float (decimal_text neg ip (CHR '','') fp) = Inr (Some (Fin (decimal_value neg ip fp)))"
proof (cases "2 \<le> length fp")
  case True
  then show ?thesis
    using assms
    by (simp add: parse_float_def two_after_comma_decimal str_replace_decimal py_float_decimal
        except_ValueError_def)
next
  case False
  have "digits (fp @ ''00'')" using assms(3) by (simp add: digits_def is_digit_def)
  then have "py_float (decimal_text neg ip (CHR ''.'') (fp @ ''00'')) = Inr (Fin (decimal_value neg ip fp))"
    using assms(1,2) by (simp add: py_float_decimal decimal_value_zeros)
  moreover have "str_contains (CHR '','') (decimal_text neg ip (CHR '','') fp)"
    by (simp add: str_contains_def decimal_text_def)
  moreover have "two_after_comma (decimal_text neg ip (CHR '','') fp) = Inr False"
    using False assms by (simp add: two_after_comma_decimal)
  ultimately show ?thesis
    using assms
    by (simp add: parse_float_def str_replace_decimal decimal_text_append except_ValueError_def)
qed

lemma except_ValueError_None: "except_ValueError r = Inr None \<longleftrightarrow> r = Inl ValueError"
  by (auto simp: except_ValueError_def split: sum.splits)

text \<open>
  Claim C1, as amended.  A text of the form \<open>-?\d+,\d{2,}\<close> parses to the number that
  \<open>float\<close> gives for the text with the comma replaced by a point, which is the decimal
  number it denotes; more generally a text with at least two characters after a comma
  parses as \<open>float\<close> parses it with its commas replaced by points.  A text without a
  comma parses as \<open>float\<close> parses it.  A text that is not a number, and that has no
  comma or has at least two characters after a comma, gives \<open>None\<close>; with fewer than
  two characters after its comma it gives \<open>None\<close> exactly when it is still rejected
  with the comma replaced by a point and two zeros appended.
\<close>

theorem parse_float_rules:
  "(ip \<noteq> [] \<and> digits ip \<and> digits fp \<and> 2 \<le> length fp \<longrightarrow>
      py_float (str_replace (CHR '','') (CHR ''.'') (decimal_text neg ip (CHR '','') fp))
        = Inr (Fin (decimal_value neg ip fp))
      \<and> parse_float (decimal_text neg ip (CHR '','') fp) = Inr (Some (Fin (decimal_value neg ip fp))))
   \<and> (2 \<le> length suf \<longrightarrow>
        parse_float (pre @ CHR '','' # suf)
          = except_ValueError (py_float (str_replace (CHR '','') (CHR ''.'') (pre @ CHR '','' # suf))))
   \<and> (\<not> str_contains (CHR '','') v \<longrightarrow> parse_float v = except_ValueError (py_float v))
   \<and> (non_numeric w \<and> \<not> str_contains (CHR '','') w \<longrightarrow> parse_float w = Inr None)
   \<and> (non_numeric (pre @ CHR '','' # suf) \<and> 2 \<le> length suf \<longrightarrow>
        parse_float (pre @ CHR '','' # suf) = Inr None)
   \<and> (length suf < 2 \<longrightarrow>
        (parse_float (pre @ CHR '','' # suf) = Inr None
         \<longleftrightarrow> py_float (str_replace (CHR '','') (CHR ''.'') (pre @ CHR '','' # suf) @ ''00'')
               = Inl ValueError))"
proof (intro conjI impI)
  assume "ip \<noteq> [] \<and> digits ip \<and> digits fp \<and> 2 \<le> length fp"
  then show "py_float (str_replace (CHR '','') (CHR ''.'') (decimal_text neg ip (CHR '','') fp))
        = Inr (Fin (decimal_value neg ip fp))"
    by (simp add: str_replace_decimal py_float_decimal)
next
  assume "ip \<noteq> [] \<and> digits ip \<and> digits fp \<and> 2 \<le> length fp"
  then show "parse_float (decimal_text neg ip (CHR '','') fp) = Inr (Some (Fin (decimal_value neg ip fp)))"
    by (simp add: parse_float_decimal)
next
  assume "2 \<le> length suf"
  then show "parse_float (pre @ CHR '','' # suf)
          = except_ValueError (py_float (str_replace (CHR '','') (CHR ''.'') (pre @ CHR '','' # suf)))"
    using parse_float_by_suffix [of pre suf] by simp
next
  assume "\<not> str_contains (CHR '','') v"
  then show "parse_float v = except_ValueError (py_float v)"
    by (simp add: parse_float_def two_after_comma_def)
next
  assume "non_numeric w \<and> \<not> str_contains (CHR '','') w"
  then show "parse_float w = Inr None"
    by (simp add: parse_float_def two_after_comma_def non_numeric_def except_ValueError_def)
next
  assume "non_numeric (pre @ CHR '','' # suf) \<and> 2 \<le> length suf"
  then have "py_float (str_replace (CHR '','') (CHR ''.'') (pre @ CHR '','' # suf)) = Inl ValueError"
    and "2 \<le> length suf"
    by (simp_all add: non_numeric_def)
  then show "parse_float (pre @ CHR '','' # suf) = Inr None"
    using parse_float_by_suffix [of pre suf] by (simp add: except_ValueError_def)
next
  assume "length suf < 2"
  then show "parse_float (pre @ CHR '','' # suf) = Inr None
         \<longleftrightarrow> py_float (str_replace (CHR '','') (CHR ''.'') (pre @ CHR '','' # suf) @ ''00'')
               = Inl ValueError"
    using parse_float_by_suffix [of pre suf] by (simp add: except_ValueError_None)
qed

theorem parse_float_rules_witness:
  "parse_float ''-12,345'' = Inr (Some (Fin (- 12.345)))
   \<and> parse_float ''3.25'' = Inr (Some (Fin 3.25))
   \<and> parse_float ''abc'' = Inr None
   \<and> parse_float ''1,5x'' = Inr None
   \<and> parse_float ''1,x'' = Inr None"
proof -
  have h1: "''12'' \<noteq> [] \<and> digits ''12'' \<and> digits ''345'' \<and> 2 \<le> length ''345''"
    by (simp add: digits_def is_digit_def)
  have h2: "\<not> str_contains (CHR '','') ''3.25''"
    by (simp add: str_contains_def)
  have h3: "non_numeric ''abc'' \<and> \<not> str_contains (CHR '','') ''abc''"
    by (simp add: non_numeric_def str_replace_def str_contains_def float_defs)
  have h4: "non_numeric (''1'' @ CHR '','' # ''5x'') \<and> 2 \<le> length ''5x''"
    by (simp add: non_numeric_def str_replace_def float_defs)
  have h5: "length ''x'' < 2
      \<and> py_float (str_replace (CHR '','') (CHR ''.'') (''1'' @ CHR '','' # ''x'') @ ''00'') = Inl ValueError"
    by (simp add: str_replace_def float_defs)
  have v: "py_float ''3.25'' = Inr (Fin 3.25)"
    "py_float (str_replace (CHR '','') (CHR ''.'') ''1,5x'') = Inl ValueError"
    by (simp_all add: str_replace_def float_defs)
  from parse_float_rules [where ip = "''12''" and fp = "''345''" and neg = True and v = "''3.25''"
      and w = "''abc''" and pre = "''1''" and suf = "''5x''"]
    parse_float_rules [where ip = "''12''" and fp = "''345''" and neg = True and v = "''3.25''"
      and w = "''abc''" and pre = "''1''" and suf = "''x''"] h1 h2 h3 h4 h5
  show ?thesis
    by (simp add: decimal_text_def decimal_value_def digits_val_def digit_val_def v except_ValueError_def)
qed

text \<open>
  The third part of claim C1 as it is written fails under the second rule: a lone comma
  is not a number, as it stands or with the comma read as a point, but with the two
  zeros appended it is the text \<open>.00\<close>, and \<open>parse_float\<close> returns zero.
\<close>

theorem parse_float_lone_comma:
  "non_numeric '','' \<and> parse_float '','' = Inr (Some (Fin 0))"
  by (simp add: non_numeric_def parse_defs float_defs)

text \<open>
  Claim C2.  A text in which fewer than two characters follow a comma is parsed with the
  comma replaced by a point and two zeros appended (when the comma is not the first of
  the text the first rule may be the one applied, and the result is the same,
  \<open>None\<close>); with a single fractional digit or none after the digits of the integer
  part the result is the decimal number denoted, so \<open>-7,5\<close> is -7.50 and \<open>-7,\<close> is
  parsed as \<open>-7.00\<close>.  The length is that of the raw text after the comma: a single
  blank there is under this rule, a digit and a blank are under the first.
\<close>

theorem parse_float_short_fraction:
  "(length suf < 2 \<longrightarrow>
      parse_float (pre @ CHR '','' # suf)
        = except_ValueError (py_float (str_replace (CHR '','') (CHR ''.'') (pre @ CHR '','' # suf) @ ''00'')))
   \<and> (ip \<noteq> [] \<and> digits ip \<and> digits fp \<and> length fp < 2 \<longrightarrow>
        parse_float (decimal_text neg ip (CHR '','') fp) = Inr (Some (Fin (decimal_value neg ip fp))))
   \<and> parse_float ''-7,5'' = Inr (Some (Fin (- 7.50)))
   \<and> parse_float ''-7,'' = except_ValueError (py_float ''-7.00'')
   \<and> parse_float ''-7,'' = Inr (Some (Fin (- 7)))
   \<and> parse_float ''5, '' = except_ValueError (py_float ''5. 00'')
   \<and> parse_float ''1,5 '' = except_ValueError (py_float ''1.5 '')"
proof (intro conjI impI)
  assume "length suf < 2"
  then show "parse_float (pre @ CHR '','' # suf)
        = except_ValueError (py_float (str_replace (CHR '','') (CHR ''.'') (pre @ CHR '','' # suf) @ ''00''))"
    using parse_float_by_suffix [of pre suf] by simp
next
  assume "ip \<noteq> [] \<and> digits ip \<and> digits fp \<and> length fp < 2"
  then show "parse_float (decimal_text neg ip (CHR '','') fp) = Inr (Some (Fin (decimal_value neg ip fp)))"
    by (simp add: parse_float_decimal)
next
  show "parse_float ''-7,5'' = Inr (Some (Fin (- 7.50)))"
    by (simp add: parse_defs float_defs)
next
  show "parse_float ''-7,'' = except_ValueError (py_float ''-7.00'')"
    by (simp add: parse_float_def two_after_comma_def str_contains_def py_index_def str_replace_def)
next
  show "parse_float ''-7,'' = Inr (Some (Fin (- 7)))"
    by (simp add: parse_defs float_defs)
next
  show "parse_float ''5, '' = except_ValueError (py_float ''5. 00'')"
    by (simp add: parse_float_def two_after_comma_def str_contains_def py_index_def str_replace_def)
next
  show "parse_float ''1,5 '' = except_ValueError (py_float ''1.5 '')"
    by (simp add: parse_float_def two_after_comma_def str_contains_def py_index_def str_replace_def)
qed

theorem parse_float_short_fraction_witness:
  "parse_float ''0,'' = Inr (Some (Fin 0))
   \<and> parse_float ''-12,3'' = Inr (Some (Fin (- 12.3)))
   \<and> parse_float ''1,234,5'' = Inr None"
proof -
  have h1: "length '''' < 2" "length ''5'' < 2" by simp_all
  have h2: "''12'' \<noteq> [] \<and> digits ''12'' \<and> digits ''3'' \<and> length ''3'' < 2"
    by (simp add: digits_def is_digit_def)
  have v: "py_float ''0.00'' = Inr (Fin 0)" "py_float ''1.234.500'' = Inl ValueError"
    by (simp_all add: float_defs)
  from parse_float_short_fraction [where pre = "''0''" and suf = "''''" and ip = "''12''"
      and fp = "''3''" and neg = True]
    parse_float_short_fraction [where pre = "''1,234''" and suf = "''5''" and ip = "''12''"
      and fp = "''3''" and neg = True] h1 h2
  show ?thesis
    by (simp add: decimal_text_def decimal_value_def digits_val_def digit_val_def str_replace_def v
        except_ValueError_def)
qed

section \<open>The z-scores\<close>











section \<open>Rendering of numbers\<close>



















section \<open>Scores that are not finite\<close>
















section \<open>The selection by z-score\<close>




lemma main_written:
  assumes "read_rows (dict_reader file) = Inr rows"
  shows "updated_file (fst (main sf file))
           = Some (write_csv sf (selected_data (filter_none rows) (z_scores (map snd (filter_none rows)))))"
  using assms by (simp add: main_def no_outputs_def Let_def split: prod.splits sum.splits)


lemmas stat_defs = z_scores_def np_mean_def np_std_def np_sum_def fsub_def

lemma five_rows_scores:
  "z_scores [Fin 0, Fin 0, Fin 0, Fin 0, Fin (- 5)]
     = [Fin (1 / 2), Fin (1 / 2), Fin (1 / 2), Fin (1 / 2), Fin (- 2)]"
proof -
  have "sqrt 4 = 2" using real_sqrt_abs [of 2] by simp
  then show ?thesis by (simp add: stat_defs)
qed

lemma str_nat_values: "str_nat 0 = ''0''" "str_nat 2 = ''2''" "str_nat 5 = ''5''"
  by code_simp+

lemma replicate_zeros: "replicate 5 (CHR ''0'') = ''00000''"
  by code_simp

lemma format_minus_two: "format_fixed 6 (Fin (- 2)) = ''-2.000000''"
  by (simp add: format_fixed_def round_half_even_def str_nat_values replicate_zeros)

lemma format_values:
  "format_fixed (Suc 0) (Fin 0) = ''0.0''" "format_fixed (Suc 0) (Fin (- 5)) = ''-5.0''"
  by (simp_all add: format_fixed_def round_half_even_def str_nat_values)

lemmas reader_defs = dict_reader_def make_row_def py_getitem_def molecule_name_column_def
  docking_score_column_def parse_float_field_def

lemma parse_float_values:
  "parse_float ''0'' = Inr (Some (Fin 0))" "parse_float ''-5'' = Inr (Some (Fin (- 5)))"
  by (simp_all add: parse_defs float_defs)

lemma five_rows_read:
  "read_rows (dict_reader [[''Title'', ''docking score''], [''a'', ''0''], [''b'', ''0''],
       [''c'', ''0''], [''d'', ''0''], [''e'', ''-5'']])
     = Inr [(Some ''a'', Some (Fin 0)), (Some ''b'', Some (Fin 0)), (Some ''c'', Some (Fin 0)),
            (Some ''d'', Some (Fin 0)), (Some ''e'', Some (Fin (- 5)))]"
  by (simp add: reader_defs parse_float_values)


section \<open>The dataset\<close>

lemma selected_data_Cons:
  "selected_data (d # data) (z # zs)
     = (if fle z z_score_threshold_lower then [(fst d, snd d, format_fixed 6 z)] else [])
       @ selected_data data zs"
  by (simp add: selected_data_def)

lemma subseq_selected: "subseq (map (\<lambda>(m, x, z). (m, x)) (selected_data data zs)) data"
proof (induction data arbitrary: zs)
  case Nil
  then show ?case by (simp add: selected_data_def)
next
  case (Cons d data)
  show ?case
  proof (cases zs)
    case Nil
    then show ?thesis by (simp add: selected_data_def)
  next
    case (Cons z zs')
    then show ?thesis
      using Cons.IH [of zs'] by (auto simp: selected_data_Cons intro: subseq_Cons')
  qed
qed

lemma subseq_filter_none: "subseq (map (\<lambda>(m, x). (m, Some x)) (filter_none rows)) rows"
  by (induction rows rule: filter_none.induct) auto

lemma filter_none_filter:
  "map (\<lambda>(m, x). (m, Some x)) (filter_none rows) = filter (\<lambda>(m, v). v \<noteq> None) rows"
  by (induction rows rule: filter_none.induct) auto

lemma read_rows_Cons:
  "read_rows (d # ds) = Inr rows \<longleftrightarrow>
     (\<exists>m t v rest. py_getitem d molecule_name_column = Inr m
        \<and> py_getitem d docking_score_column = Inr t \<and> parse_float_field t = Inr v
        \<and> read_rows ds = Inr rest \<and> rows = (m, v) # rest)"
  by (auto split: sum.splits)

lemma read_rows_rel:
  "read_rows ds = Inr rows \<Longrightarrow>
     list_all2 (\<lambda>d (m, v). py_getitem d molecule_name_column = Inr m
        \<and> (\<exists>t. py_getitem d docking_score_column = Inr t \<and> parse_float_field t = Inr v)) ds rows"
proof (induction ds arbitrary: rows)
  case Nil
  then show ?case by simp
next
  case (Cons d ds)
  then show ?case by (auto simp: read_rows_Cons simp del: read_rows.simps)
qed

lemma filter_none_Cons:
  "filter_none ((m, v) # rest) = (case v of None \<Rightarrow> [] | Some x \<Rightarrow> [(m, x)]) @ filter_none rest"
  by (cases v) simp_all

lemma read_rows_drop:
  assumes "py_getitem d molecule_name_column = Inr m"
    "py_getitem d docking_score_column = Inr t" "parse_float_field t = Inr None"
  shows "(case read_rows (ds1 @ d # ds2) of
            Inl e \<Rightarrow> read_rows (ds1 @ ds2) = Inl e
          | Inr rows \<Rightarrow> (\<exists>rows'. read_rows (ds1 @ ds2) = Inr rows'
                          \<and> filter_none rows' = filter_none rows))"
proof (induction ds1)
  case Nil
  then show ?case using assms by (auto split: sum.splits)
next
  case (Cons a ds1)
  then show ?case by (auto simp: filter_none_Cons split: sum.splits)
qed

lemma dict_reader_insert:
  assumes "r \<noteq> []"
  shows "dict_reader (h # rs1 @ r # rs2)
           = map (make_row h) (filter (\<lambda>row. row \<noteq> []) rs1) @ make_row h r
               # map (make_row h) (filter (\<lambda>row. row \<noteq> []) rs2)"
    and "dict_reader (h # rs1 @ rs2)
           = map (make_row h) (filter (\<lambda>row. row \<noteq> []) rs1)
               @ map (make_row h) (filter (\<lambda>row. row \<noteq> []) rs2)"
  using assms by (simp_all add: dict_reader_def)

lemma main_cong:
  assumes "(case read_rows (dict_reader f1) of
            Inl e \<Rightarrow> read_rows (dict_reader f2) = Inl e
          | Inr rows \<Rightarrow> (\<exists>rows'. read_rows (dict_reader f2) = Inr rows'
                          \<and> filter_none rows' = filter_none rows))"
  shows "main sf f1 = main sf f2"
proof (cases "read_rows (dict_reader f1)")
  case (Inl e)
  then show ?thesis using assms by (simp add: main_def)
next
  case (Inr rows)
  then obtain rows' where "read_rows (dict_reader f2) = Inr rows'"
      "filter_none rows' = filter_none rows"
    using assms by auto
  then show ?thesis using Inr by (simp add: main_def)
qed

text \<open>
  Claim C7.  The rows read from the file pair each record, in order, with its name and
  the result of \<open>parse_float\<close> on its score text; the dataset is what is left when the
  rows whose result is \<open>None\<close> are removed, so every element of it has a parsed score.
  A record whose score text does not parse changes nothing that the run produces: with
  or without it the files written, the count in the document, the lines printed and the
  exception that ends the run are the same.
\<close>

theorem unparseable_rows_dropped:
  "(read_rows (dict_reader file) = Inr rows \<longrightarrow>
      list_all2 (\<lambda>d (m, v). py_getitem d molecule_name_column = Inr m
          \<and> (\<exists>t. py_getitem d docking_score_column = Inr t \<and> parse_float_field t = Inr v))
        (dict_reader file) rows
      \<and> map (\<lambda>(m, x). (m, Some x)) (filter_none rows) = filter (\<lambda>(m, v). v \<noteq> None) rows)
   \<and> (r \<noteq> [] \<and> py_getitem (make_row h r) molecule_name_column = Inr m
        \<and> py_getitem (make_row h r) docking_score_column = Inr (Some s)
        \<and> parse_float s = Inr None \<longrightarrow>
        main sf (h # rs1 @ r # rs2) = main sf (h # rs1 @ rs2))"
proof (intro conjI impI)
  assume "read_rows (dict_reader file) = Inr rows"
  then show "list_all2 (\<lambda>d (m, v). py_getitem d molecule_name_column = Inr m
          \<and> (\<exists>t. py_getitem d docking_score_column = Inr t \<and> parse_float_field t = Inr v))
        (dict_reader file) rows"
    by (rule read_rows_rel)
next
  show "map (\<lambda>(m, x). (m, Some x)) (filter_none rows) = filter (\<lambda>(m, v). v \<noteq> None) rows"
    by (rule filter_none_filter)
next
  assume a: "r \<noteq> [] \<and> py_getitem (make_row h r) molecule_name_column = Inr m
        \<and> py_getitem (make_row h r) docking_score_column = Inr (Some s)
        \<and> parse_float s = Inr None"
  then have "parse_float_field (Some s) = Inr None" by (simp add: parse_float_field_def)
  with a have "case read_rows (map (make_row h) (filter (\<lambda>row. row \<noteq> []) rs1) @ make_row h r
               # map (make_row h) (filter (\<lambda>row. row \<noteq> []) rs2)) of
            Inl e \<Rightarrow> read_rows (map (make_row h) (filter (\<lambda>row. row \<noteq> []) rs1)
               @ map (make_row h) (filter (\<lambda>row. row \<noteq> []) rs2)) = Inl e
          | Inr rows \<Rightarrow> (\<exists>rows'. read_rows (map (make_row h) (filter (\<lambda>row. row \<noteq> []) rs1)
               @ map (make_row h) (filter (\<lambda>row. row \<noteq> []) rs2)) = Inr rows'
                          \<and> filter_none rows' = filter_none rows)"
    by (intro read_rows_drop) simp_all
  moreover from a have ne: "r \<noteq> []" by simp
  note d1 = dict_reader_insert(1) [OF ne, of h rs1 rs2] and d2 = dict_reader_insert(2) [OF ne, of h rs1 rs2]
  ultimately show "main sf (h # rs1 @ r # rs2) = main sf (h # rs1 @ rs2)"
    by (intro main_cong) (simp only: d1 d2)
qed

section \<open>Reading the written file again\<close>



lemma dict_reader_written:
  "dict_reader (write_csv sf sel)
     = map (make_row csv_header) (map (\<lambda>(m, x, z). [csv_field m, sf x, z]) sel)"
proof -
  have "filter (\<lambda>row. row \<noteq> []) (map (\<lambda>(m, x, z). [csv_field m, sf x, z]) sel)
          = map (\<lambda>(m, x, z). [csv_field m, sf x, z]) sel"
    by (induction sel) auto
  then show ?thesis by (simp add: dict_reader_def write_csv_def)
qed


lemma print_last_empty: "print_last_molecule_docking (write_csv sf []) = ([], Inl IndexError)"
  by (simp add: print_last_molecule_docking_def dict_reader_written py_last_def del: map_map)

lemma scored_data_empty: "scored_data data (z_scores (map snd data)) = [] \<longleftrightarrow> data = []"
  by (cases data) (simp_all add: scored_data_def z_scores_def)



lemma make_pdf_empty:
  "make_pdf sf [] =
     Inr \<lparr> pdf_title = ''Compounds with Z-Score <= -1.960'',
           pdf_count_line = ''Total Number of Selected Compounds: 0'',
           pdf_table_header = [''Compound ID'', ''Docking Score (kcal/mol)'', ''Calculated Z-Score''],
           pdf_table_rows = [] \<rparr>"
proof -
  have "str_nat 0 = ''0''" by code_simp
  then show ?thesis by (simp add: make_pdf_def)
qed

text \<open>A run that reads its input without an exception.\<close>

lemma main_run:
  assumes "read_rows (dict_reader file) = Inr rows"
    and "sel = selected_data (filter_none rows) (z_scores (map snd (filter_none rows)))"
    and "make_pdf sf sel = Inr pdf"
    and "out = \<lparr> updated_file = Some (write_csv sf sel), output_pdf = Some pdf,
                 output_image = Some [z_score_threshold_lower, Fin 0],
                 docking_output_image = None, stdout = [] \<rparr>"
  shows "main sf file =
           (if filter_none rows = [] then (out, Some ValueError)
            else (case print_last_molecule_docking (write_csv sf sel) of
                    (printed, Inl e) \<Rightarrow> (out \<lparr> stdout := printed \<rparr>, Some e)
                  | (printed, Inr v) \<Rightarrow>
                      (out \<lparr> stdout := printed,
                             docking_output_image := Some (v, ''Fitness= '' @ format_fixed 2 v) \<rparr>,
                       None)))"
  using assms by (simp add: main_def Let_def scored_data_empty split: prod.splits sum.splits)

section \<open>Order of the rows and the last row\<close>

text \<open>
  Claim C6.  The selected rows, without their z-score, are a subsequence of the dataset,
  which is itself a subsequence of the rows read from the file; the filtered file holds
  the selected rows in that order after its header.
\<close>

theorem filtered_order_preserved:
  "subseq (map (\<lambda>(m, x, z). (m, x)) (selected_data data zs)) data
   \<and> (read_rows (dict_reader file) = Inr rows \<longrightarrow>
        updated_file (fst (main sf file))
          = Some (csv_header # map (\<lambda>(m, x, z). [csv_field m, sf x, z])
                   (selected_data (filter_none rows) (z_scores (map snd (filter_none rows)))))
        \<and> subseq (map (\<lambda>(m, x, z). (m, x))
                   (selected_data (filter_none rows) (z_scores (map snd (filter_none rows)))))
             (filter_none rows)
        \<and> subseq (map (\<lambda>(m, x). (m, Some x)) (filter_none rows)) rows)"
  by (simp add: subseq_selected subseq_filter_none main_written write_csv_def)

theorem filtered_order_preserved_witness:
  "subseq [(Some ''e'', Fin (- 5))]
     [(Some ''a'', Fin 0), (Some ''b'', Fin 0), (Some ''c'', Fin 0), (Some ''d'', Fin 0),
      (Some ''e'', Fin (- 5))]
   \<and> updated_file (fst (main (format_fixed 1)
        [[''Title'', ''docking score''], [''a'', ''0''], [''b'', ''0''], [''c'', ''0''], [''d'', ''0''],
         [''e'', ''-5'']]))
       = Some [[''Title'', ''docking score'', ''Z Score''], [''e'', ''-5.0'', ''-2.000000'']]"
proof -
  have sel: "selected_data [(Some ''a'', Fin 0), (Some ''b'', Fin 0), (Some ''c'', Fin 0),
       (Some ''d'', Fin 0), (Some ''e'', Fin (- 5))] (z_scores [Fin 0, Fin 0, Fin 0, Fin 0, Fin (- 5)])
     = [(Some ''e'', Fin (- 5), ''-2.000000'')]"
    by (simp add: five_rows_scores selected_data_def z_score_threshold_lower_def format_minus_two)
  from filtered_order_preserved [of "[(Some ''a'', Fin 0), (Some ''b'', Fin 0), (Some ''c'', Fin 0),
       (Some ''d'', Fin 0), (Some ''e'', Fin (- 5))]" "z_scores [Fin 0, Fin 0, Fin 0, Fin 0, Fin (- 5)]"
     "[[''Title'', ''docking score''], [''a'', ''0''], [''b'', ''0''], [''c'', ''0''], [''d'', ''0''],
         [''e'', ''-5'']]"
     "[(Some ''a'', Some (Fin 0)), (Some ''b'', Some (Fin 0)), (Some ''c'', Some (Fin 0)),
            (Some ''d'', Some (Fin 0)), (Some ''e'', Some (Fin (- 5)))]" "format_fixed 1"]
    five_rows_read
  show ?thesis
    by (simp add: sel csv_header_def csv_field_def format_values molecule_name_column_def
        docking_score_column_def)
qed

lemma three_rows_read:
  "py_getitem (make_row [''Title'', ''docking score''] [''b'', ''x'']) molecule_name_column = Inr (Some ''b'')"
  "py_getitem (make_row [''Title'', ''docking score''] [''b'', ''x'']) docking_score_column = Inr (Some ''x'')"
  "parse_float ''x'' = Inr None"
  by (simp_all add: reader_defs parse_defs float_defs)

theorem unparseable_rows_dropped_witness:
  "main (format_fixed 1) [[''Title'', ''docking score''], [''a'', ''1''], [''b'', ''x''], [''c'', ''3'']]
     = main (format_fixed 1) [[''Title'', ''docking score''], [''a'', ''1''], [''c'', ''3'']]
   \<and> map (\<lambda>(m, x). (m, Some x)) (filter_none [(Some ''a'', Some (Fin 1)), (Some ''b'', None)])
       = [(Some ''a'', Some (Fin 1))]"
  using unparseable_rows_dropped [of "[]" "[(Some ''a'', Some (Fin 1)), (Some ''b'', None)]"
      "[''b'', ''x'']" "[''Title'', ''docking score'']" "Some ''b''" "''x''" "format_fixed 1"
      "[[''a'', ''1'']]" "[[''c'', ''3'']]"]
    three_rows_read
  by simp



section \<open>Runs that select no row\<close>

lemma main_empty_selection:
  assumes "read_rows (dict_reader file) = Inr rows" "filter_none rows \<noteq> []"
    "selected_data (filter_none rows) (z_scores (map snd (filter_none rows))) = []"
  shows "main sf file =
           (\<lparr> updated_file = Some [csv_header],
               output_pdf = Some \<lparr> pdf_title = ''Compounds with Z-Score <= -1.960'',
                   pdf_count_line = ''Total Number of Selected Compounds: 0'',
                   pdf_table_header = [''Compound ID'', ''Docking Score (kcal/mol)'',
                                       ''Calculated Z-Score''],
                   pdf_table_rows = [] \<rparr>,
               output_image = Some [z_score_threshold_lower, Fin 0],
               docking_output_image = None, stdout = [] \<rparr>, Some IndexError)"
  using assms(2) print_last_empty [of sf]
  by (subst main_run [OF assms(1) assms(3) [symmetric] make_pdf_empty refl])
    (simp add: write_csv_def)

text \<open>
  Claim C10, as amended.  When the dataset is not empty and no row is selected, the run
  ends with an IndexError raised while the written file is read again: the filtered file
  (its header only), the document and the plot of the z-scores are written, nothing is
  printed and the plot of the docking scores is not saved.
\<close>

theorem empty_selection_index_error:
  "(read_rows (dict_reader file) = Inr rows \<and> filter_none rows \<noteq> []
      \<and> selected_data (filter_none rows) (z_scores (map snd (filter_none rows))) = [] \<longrightarrow>
      main sf file =
        (\<lparr> updated_file = Some [csv_header],
            output_pdf = Some \<lparr> pdf_title = ''Compounds with Z-Score <= -1.960'',
                   pdf_count_line = ''Total Number of Selected Compounds: 0'',
                   pdf_table_header = [''Compound ID'', ''Docking Score (kcal/mol)'',
                                       ''Calculated Z-Score''],
                   pdf_table_rows = [] \<rparr>,
            output_image = Some [z_score_threshold_lower, Fin 0],
            docking_output_image = None, stdout = [] \<rparr>, Some IndexError))
   \<and> print_last_molecule_docking [csv_header] = ([], Inl IndexError)"
  using print_last_empty [of sf] by (simp add: main_empty_selection write_csv_def)

lemma one_row_read:
  "read_rows (dict_reader [[''Title'', ''docking score''], [''a'', ''0'']]) = Inr [(Some ''a'', Some (Fin 0))]"
  by (simp add: reader_defs parse_float_values)

theorem empty_selection_index_error_witness:
  "snd (main (format_fixed 1) [[''Title'', ''docking score''], [''a'', ''0'']]) = Some IndexError
   \<and> docking_output_image (fst (main (format_fixed 1) [[''Title'', ''docking score''], [''a'', ''0'']]))
       = None
   \<and> updated_file (fst (main (format_fixed 1) [[''Title'', ''docking score''], [''a'', ''0'']]))
       = Some [[''Title'', ''docking score'', ''Z Score'']]"
proof -
  have z: "z_scores [Fin 0] = [NaN]" by (simp add: stat_defs)
  have "selected_data [(Some ''a'', Fin 0)] (z_scores [Fin 0]) = []"
    by (simp add: z selected_data_def)
  with empty_selection_index_error [of "[[''Title'', ''docking score''], [''a'', ''0'']]"
      "[(Some ''a'', Some (Fin 0))]" "format_fixed 1"] one_row_read
  show ?thesis
    by (simp add: csv_header_def molecule_name_column_def docking_score_column_def)
qed

text \<open>
  Claim C10 as it is written fails when the dataset itself is empty: for an input with a
  header and no row the filtered subset is empty, but the run ends with the ValueError of
  the minimum of an empty list, before the written file is read again.
\<close>

theorem empty_dataset_value_error:
  "updated_file (fst (main (format_fixed 1) [[''Title'', ''docking score'']]))
     = Some [[''Title'', ''docking score'', ''Z Score'']]
   \<and> snd (main (format_fixed 1) [[''Title'', ''docking score'']]) = Some ValueError
   \<and> snd (main (format_fixed 1) [[''Title'', ''docking score'']]) \<noteq> Some IndexError"
  by (simp add: main_def dict_reader_def selected_data_def scored_data_def z_scores_def write_csv_def
      make_pdf_empty Let_def csv_header_def molecule_name_column_def docking_score_column_def)

lemma sqrt_1522_bounds: "39.012 < sqrt 1522" "sqrt 1522 < 39.014"
proof -
  show "39.012 < sqrt 1522" by (rule real_less_rsqrt) (simp add: power2_eq_square)
  show "sqrt 1522 < 39.014" by (rule real_less_lsqrt) (simp_all add: power2_eq_square)
qed

lemma above_threshold:
  assumes "39 < s" "- 21 \<le> a"
  shows "\<not> a / s \<le> - (1.960 :: real)"
proof -
  have "0 < s" using assms(1) by simp
  then have "a / s \<le> - 1.960 \<longleftrightarrow> a \<le> - 1.960 * s"
    by (simp add: pos_divide_le_eq)
  then show ?thesis using assms by simp
qed

lemma scenario_statistics:
  "np_mean [Fin 1, Fin 2, Fin 3, Fin 4, Fin 100] = Fin 22"
  "np_std [Fin 1, Fin 2, Fin 3, Fin 4, Fin 100] = Fin (sqrt 1522)"
  by (simp_all add: np_mean_def np_std_def np_sum_def fsub_def)

lemma scenario_selection:
  "selected_data [(m1, Fin 1), (m2, Fin 2), (m3, Fin 3), (m4, Fin 4), (m5, Fin 100)]
     (z_scores [Fin 1, Fin 2, Fin 3, Fin 4, Fin 100]) = []"
proof -
  have s: "39 < sqrt 1522" using sqrt_1522_bounds(1) by simp
  have "\<not> (- 21) / sqrt 1522 \<le> - 1.960" "\<not> (- 20) / sqrt 1522 \<le> - 1.960"
    "\<not> (- 19) / sqrt 1522 \<le> - 1.960" "\<not> (- 18) / sqrt 1522 \<le> - 1.960"
    "\<not> 78 / sqrt 1522 \<le> - 1.960"
    by (rule above_threshold [OF s], simp)+
  then show ?thesis
    by (simp add: z_scores_def scenario_statistics fsub_def selected_data_def z_score_threshold_lower_def)
qed

lemma scenario_values:
  "parse_float ''1.0'' = Inr (Some (Fin 1))" "parse_float ''2.0'' = Inr (Some (Fin 2))"
  "parse_float ''3.0'' = Inr (Some (Fin 3))" "parse_float ''4.0'' = Inr (Some (Fin 4))"
  "parse_float ''100.0'' = Inr (Some (Fin 100))"
  by (simp_all add: parse_defs float_defs)

lemma scenario_read:
  "read_rows (dict_reader [[''Title'', ''docking score''], [t1, ''1.0''], [t2, ''2.0''],
       [t3, ''3.0''], [t4, ''4.0''], [t5, ''100.0'']])
     = Inr [(Some t1, Some (Fin 1)), (Some t2, Some (Fin 2)), (Some t3, Some (Fin 3)),
            (Some t4, Some (Fin 4)), (Some t5, Some (Fin 100))]"
  by (simp add: reader_defs scenario_values)

text \<open>
  Claim C9, as amended.  For the input of five rows with the score texts 1.0, 2.0, 3.0,
  4.0 and 100.0 the mean is 22 and the population standard deviation is the square root
  of 1522, about 39.013; no row is selected, the filtered file has its header only and
  the document shows the count 0.  The run ends with the IndexError of claim C10.
\<close>

theorem five_row_scenario:
  "main sf [[''Title'', ''docking score''], [t1, ''1.0''], [t2, ''2.0''], [t3, ''3.0''],
       [t4, ''4.0''], [t5, ''100.0'']]
     = (\<lparr> updated_file = Some [[''Title'', ''docking score'', ''Z Score'']],
          output_pdf = Some \<lparr> pdf_title = ''Compounds with Z-Score <= -1.960'',
                         pdf_count_line = ''Total Number of Selected Compounds: 0'',
                         pdf_table_header = [''Compound ID'', ''Docking Score (kcal/mol)'',
                                             ''Calculated Z-Score''],
                         pdf_table_rows = [] \<rparr>,
          output_image = Some [Fin (- 1.960), Fin 0],
          docking_output_image = None, stdout = [] \<rparr>, Some IndexError)
   \<and> selected_data [(Some t1, Fin 1), (Some t2, Fin 2), (Some t3, Fin 3), (Some t4, Fin 4),
         (Some t5, Fin 100)] (z_scores [Fin 1, Fin 2, Fin 3, Fin 4, Fin 100]) = []
   \<and> np_mean [Fin 1, Fin 2, Fin 3, Fin 4, Fin 100] = Fin 22
   \<and> np_std [Fin 1, Fin 2, Fin 3, Fin 4, Fin 100] = Fin (sqrt 1522)
   \<and> \<bar>sqrt 1522 - 39.013\<bar> < 0.001"
proof (intro conjI)
  show "main sf [[''Title'', ''docking score''], [t1, ''1.0''], [t2, ''2.0''], [t3, ''3.0''],
       [t4, ''4.0''], [t5, ''100.0'']]
     = (\<lparr> updated_file = Some [[''Title'', ''docking score'', ''Z Score'']],
          output_pdf = Some \<lparr> pdf_title = ''Compounds with Z-Score <= -1.960'',
                         pdf_count_line = ''Total Number of Selected Compounds: 0'',
                         pdf_table_header = [''Compound ID'', ''Docking Score (kcal/mol)'',
                                             ''Calculated Z-Score''],
                         pdf_table_rows = [] \<rparr>,
          output_image = Some [Fin (- 1.960), Fin 0],
          docking_output_image = None, stdout = [] \<rparr>, Some IndexError)"
    by (subst main_empty_selection [OF scenario_read])
      (simp_all add: scenario_selection csv_header_def
        molecule_name_column_def docking_score_column_def z_score_threshold_lower_def)
next
  show "selected_data [(Some t1, Fin 1), (Some t2, Fin 2), (Some t3, Fin 3), (Some t4, Fin 4),
         (Some t5, Fin 100)] (z_scores [Fin 1, Fin 2, Fin 3, Fin 4, Fin 100]) = []"
    by (rule scenario_selection)
next
  show "np_mean [Fin 1, Fin 2, Fin 3, Fin 4, Fin 100] = Fin 22"
    by (rule scenario_statistics)
next
  show "np_std [Fin 1, Fin 2, Fin 3, Fin 4, Fin 100] = Fin (sqrt 1522)"
    by (rule scenario_statistics)
next
  show "\<bar>sqrt 1522 - 39.013\<bar> < 0.001"
    using sqrt_1522_bounds by linarith
qed

theorem five_row_scenario_witness:
  "snd (main (format_fixed 1) [[''Title'', ''docking score''], [''m1'', ''1.0''], [''m2'', ''2.0''],
       [''m3'', ''3.0''], [''m4'', ''4.0''], [''m5'', ''100.0'']]) = Some IndexError"
  using five_row_scenario [of "format_fixed 1" "''m1''" "''m2''" "''m3''" "''m4''" "''m5''"]
  by simp

text \<open>
  The standard deviation that claim C9 states, about 38.886, is not that of the five
  scores: the deviation is more than a tenth away from it.
\<close>

theorem scenario_deviation_value:
  "np_std [Fin 1, Fin 2, Fin 3, Fin 4, Fin 100] = Fin (sqrt 1522)
   \<and> \<not> \<bar>sqrt 1522 - 38.886\<bar> < 0.1"
proof
  show "np_std [Fin 1, Fin 2, Fin 3, Fin 4, Fin 100] = Fin (sqrt 1522)"
    by (rule scenario_statistics)
  have "39 < sqrt 1522" using sqrt_1522_bounds(1) by simp
  then show "\<not> \<bar>sqrt 1522 - 38.886\<bar> < 0.1"
    by (simp add: abs_less_iff)
qed

end
